theory Spec2Isabelle
  imports Main "HOL-Library.Word"
begin

section \<open>Tesseract OCR model: predict, load_context and the serving step\<close>

text \<open>
  The notebook \<^verbatim>\<open>03_Deploy Tesseract Model.py\<close> defines one class, \<^verbatim>\<open>OCRModel\<close>,
  with the methods \<^verbatim>\<open>load_context\<close> and \<^verbatim>\<open>predict\<close>, and then calls the MLflow
  deployment client once to create a serving endpoint.

  The Python is embedded as follows.
  \<^item> A Python \<^verbatim>\<open>str\<close> is a \<^typ>\<open>string\<close>; each \<^typ>\<open>char\<close> stands for one code point
    below 256. A \<^verbatim>\<open>bytes\<close> value is a list of 8-bit words.
  \<^item> The pandas table is a map from column names to the cells of the column.
  \<^item> Every exception of the source is a value of the type \<open>exn\<close>; a computation
    returns \<open>Inl e\<close> where the Python raises \<open>e\<close>. The values of \<open>exn\<close> are instances of
    Python's \<^verbatim>\<open>Exception\<close> class, which is what the lookups, Pillow and pytesseract
    raise. A value raised outside that class (\<^verbatim>\<open>SystemExit\<close>, \<^verbatim>\<open>KeyboardInterrupt\<close>) is
    not caught by the handler of predict; \<open>predict_any\<close> below is predict with such
    values.
  \<^item> Pillow, pytesseract and \<^verbatim>\<open>subprocess\<close> are not code of the notebook: their
    functions are the fields of a record \<open>libs\<close>, and every theorem holds for every
    value of that record.
  \<^item> Effects are explicit: a computation maps a \<open>world\<close> (standard output, the
    module global \<^verbatim>\<open>pytesseract.pytesseract.tesseract_cmd\<close>, the attributes of
    \<^verbatim>\<open>self\<close>, and the log of library calls made so far) to a result and a new world.
\<close>

subsection \<open>Values\<close>

type_synonym bytes = "8 word list"

text \<open>A \<^verbatim>\<open>PIL.Image.Image\<close>: the attribute \<^verbatim>\<open>format\<close> (\<^verbatim>\<open>None\<close> for an image that
  was not read from a file), the attribute \<^verbatim>\<open>mode\<close>, and the raster.\<close>

record image =
  format :: "string option"
  mode :: string
  raster :: bytes

text \<open>What a cell of the column \<^verbatim>\<open>image\<close> holds: raw bytes, a (base64) \<^verbatim>\<open>str\<close>, or
  \<^verbatim>\<open>None\<close>.\<close>

datatype cell = Bytes bytes | Str string | NoneCell

type_synonym dataframe = "string \<rightharpoonup> cell list"

datatype exn =
    KeyError string
  | IndexError string
  | TypeError string
  | LibraryError string string

text \<open>\<^verbatim>\<open>repr\<close> of a \<^verbatim>\<open>str\<close> that has no quote, backslash or non-printable character,
  which is all the source applies it to (the column name \<^verbatim>\<open>image\<close>).\<close>

definition repr_str :: "string \<Rightarrow> string" where
  "repr_str s = [CHR 0x27] @ s @ [CHR 0x27]"

text \<open>\<^verbatim>\<open>str(e)\<close>. A \<^verbatim>\<open>KeyError\<close> prints the \<^verbatim>\<open>repr\<close> of its key, every other exception
  its message. \<open>LibraryError c m\<close> is an exception of class \<open>c\<close> raised inside a
  library, with \<^verbatim>\<open>str(e)\<close> equal to \<open>m\<close>.\<close>

fun str_exn :: "exn \<Rightarrow> string" where
  "str_exn (KeyError k) = repr_str k"
| "str_exn (IndexError m) = m"
| "str_exn (TypeError m) = m"
| "str_exn (LibraryError c m) = m"

subsection \<open>Formatting: decimal numbers and \<^verbatim>\<open>json.dumps\<close>\<close>

definition digit_char :: "nat \<Rightarrow> char" where
  "digit_char d = ''0123456789abcdef'' ! d"

function str_nat :: "nat \<Rightarrow> string" where
  "str_nat n = (if n < 10 then [digit_char n] else str_nat (n div 10) @ [digit_char (n mod 10)])"
  by pat_completeness auto
termination
  by (relation "measure id") auto

text \<open>\<^verbatim>\<open>str(x)\<close> inside an f-string for an optional string: \<^verbatim>\<open>None\<close> prints as
  \<^verbatim>\<open>None\<close>.\<close>

fun str_opt :: "string option \<Rightarrow> string" where
  "str_opt None = ''None''"
| "str_opt (Some s) = s"

text \<open>\<^verbatim>\<open>json.dumps\<close> with its defaults (\<^verbatim>\<open>ensure_ascii=True\<close>, separators \<^verbatim>\<open>', '\<close> and
  \<^verbatim>\<open>': '\<close>) on a dictionary from \<^verbatim>\<open>str\<close> to \<^verbatim>\<open>str\<close>. A character is written as it is
  when it lies between space and tilde and is neither the quote nor the backslash;
  the quote, the backslash and five control characters have two-character escapes;
  every other character is written as \<^verbatim>\<open>\uXXXX\<close> in lower-case hexadecimal.\<close>

definition hex4 :: "nat \<Rightarrow> string" where
  "hex4 n = [digit_char (n div 4096 mod 16), digit_char (n div 256 mod 16),
             digit_char (n div 16 mod 16), digit_char (n mod 16)]"

definition json_escape_char :: "char \<Rightarrow> string" where
  "json_escape_char c =
     (if c = CHR 0x5C then [CHR 0x5C, CHR 0x5C]
      else if c = CHR 0x22 then [CHR 0x5C, CHR 0x22]
      else if c = CHR 0x08 then [CHR 0x5C, CHR ''b'']
      else if c = CHR 0x0C then [CHR 0x5C, CHR ''f'']
      else if c = CHR 0x0A then [CHR 0x5C, CHR ''n'']
      else if c = CHR 0x0D then [CHR 0x5C, CHR ''r'']
      else if c = CHR 0x09 then [CHR 0x5C, CHR ''t'']
      else if 32 \<le> (of_char c :: nat) \<and> (of_char c :: nat) \<le> 126 then [c]
      else [CHR 0x5C, CHR ''u''] @ hex4 (of_char c))"

definition json_string :: "string \<Rightarrow> string" where
  "json_string s = [CHR 0x22] @ concat (map json_escape_char s) @ [CHR 0x22]"

definition json_item :: "string \<times> string \<Rightarrow> string" where
  "json_item kv = json_string (fst kv) @ '': '' @ json_string (snd kv)"

fun join_items :: "string list \<Rightarrow> string" where
  "join_items [] = []"
| "join_items [x] = x"
| "join_items (x # y # ys) = x @ '', '' @ join_items (y # ys)"

definition json_dumps :: "(string \<times> string) list \<Rightarrow> string" where
  "json_dumps d = ''{'' @ join_items (map json_item d) @ ''}''"

subsection \<open>The libraries and the world\<close>

text \<open>The library functions the notebook calls. \<open>Image_open b\<close> is
  \<^verbatim>\<open>Image.open(io.BytesIO(b))\<close>; \<open>image_convert im m\<close> is \<^verbatim>\<open>im.convert(m)\<close>;
  \<open>image_save im f\<close> is the content of the buffer after \<^verbatim>\<open>im.save(output, format=f)\<close>;
  \<open>image_to_string cmd im\<close> is \<^verbatim>\<open>pytesseract.image_to_string(im)\<close> while the module
  global \<^verbatim>\<open>tesseract_cmd\<close> is \<open>cmd\<close>; \<open>subprocess_run argv\<close> is
  \<^verbatim>\<open>subprocess.run(argv, check=True)\<close>.\<close>

record libs =
  Image_open :: "bytes \<Rightarrow> exn + image"
  image_convert :: "image \<Rightarrow> string \<Rightarrow> exn + image"
  image_save :: "image \<Rightarrow> string \<Rightarrow> exn + bytes"
  image_to_string :: "string \<Rightarrow> image \<Rightarrow> exn + string"
  subprocess_run :: "string list \<Rightarrow> exn + unit"

datatype call =
    Call_Image_open bytes
  | Call_convert image string
  | Call_save image string
  | Call_image_to_string string image
  | Call_subprocess_run "string list"

record world =
  stdout :: "string list"
  tesseract_cmd :: string
  self_dict :: "(string \<times> string) list"
  calls :: "call list"

type_synonym 'a py = "world \<Rightarrow> (exn + 'a) \<times> world"

definition ret :: "'a \<Rightarrow> 'a py" where
  "ret v = (\<lambda>w. (Inr v, w))"

definition raise :: "exn \<Rightarrow> 'a py" where
  "raise e = (\<lambda>w. (Inl e, w))"

definition bind :: "'a py \<Rightarrow> ('a \<Rightarrow> 'b py) \<Rightarrow> 'b py" where
  "bind m f = (\<lambda>w. case m w of (Inl e, w') \<Rightarrow> (Inl e, w') | (Inr v, w') \<Rightarrow> f v w')"

text \<open>\<^verbatim>\<open>print(line)\<close>.\<close>

definition print :: "string \<Rightarrow> unit py" where
  "print line = (\<lambda>w. (Inr (), w\<lparr>stdout := stdout w @ [line]\<rparr>))"

text \<open>A call into a library: it is logged, and it returns or raises what the library
  does.\<close>

definition extern :: "call \<Rightarrow> (exn + 'a) \<Rightarrow> 'a py" where
  "extern c r = (\<lambda>w. (r, w\<lparr>calls := calls w @ [c]\<rparr>))"

subsection \<open>The steps of predict\<close>

text \<open>\<^verbatim>\<open>model_input['image']\<close>: a missing column raises \<^verbatim>\<open>KeyError('image')\<close>.\<close>

definition getitem :: "dataframe \<Rightarrow> string \<Rightarrow> (cell list) py" where
  "getitem df k = (case df k of None \<Rightarrow> raise (KeyError k) | Some col \<Rightarrow> ret col)"

text \<open>\<^verbatim>\<open>.iloc[0]\<close>: an empty column raises \<^verbatim>\<open>IndexError\<close>.\<close>

definition iloc0 :: "cell list \<Rightarrow> cell py" where
  "iloc0 col = (case col of
      [] \<Rightarrow> raise (IndexError ''single positional indexer is out-of-bounds'')
    | c # _ \<Rightarrow> ret c)"

text \<open>\<^verbatim>\<open>len(image_bytes)\<close>.\<close>

definition py_len :: "cell \<Rightarrow> nat py" where
  "py_len c = (case c of
      Bytes b \<Rightarrow> ret (length b)
    | Str s \<Rightarrow> ret (length s)
    | NoneCell \<Rightarrow> raise (TypeError (''object of type '' @ repr_str ''NoneType'' @ '' has no len()'')))"

text \<open>\<^verbatim>\<open>Image.open(io.BytesIO(image_bytes))\<close>: \<^verbatim>\<open>io.BytesIO\<close> takes a bytes-like object
  only, and raises \<^verbatim>\<open>TypeError\<close> before Pillow is called otherwise.\<close>

definition open_cell :: "libs \<Rightarrow> cell \<Rightarrow> image py" where
  "open_cell L c = (case c of
      Bytes b \<Rightarrow> extern (Call_Image_open b) (Image_open L b)
    | Str s \<Rightarrow> raise (TypeError (''a bytes-like object is required, not '' @ repr_str ''str''))
    | NoneCell \<Rightarrow> raise (TypeError (''a bytes-like object is required, not '' @ repr_str ''NoneType'')))"

text \<open>Lines 77 to 82: an image whose format is not \<^verbatim>\<open>JPEG\<close> is converted to RGB,
  saved as JPEG into a buffer and opened again from that buffer.\<close>

definition to_jpeg :: "libs \<Rightarrow> image \<Rightarrow> image py" where
  "to_jpeg L im =
     (if format im \<noteq> Some ''JPEG'' then
        bind (extern (Call_convert im ''RGB'') (image_convert L im ''RGB'')) (\<lambda>rgb.
        bind (extern (Call_save rgb ''JPEG'') (image_save L rgb ''JPEG'')) (\<lambda>image_bytes.
        extern (Call_Image_open image_bytes) (Image_open L image_bytes)))
      else ret im)"

text \<open>\<^verbatim>\<open>pytesseract.image_to_string(image)\<close>, which runs the binary named by the module
  global.\<close>

definition ocr :: "libs \<Rightarrow> image \<Rightarrow> string py" where
  "ocr L im = (\<lambda>w. extern (Call_image_to_string (tesseract_cmd w) im)
                        (image_to_string L (tesseract_cmd w) im) w)"

text \<open>The body of the \<^verbatim>\<open>try\<close> block, lines 70 to 86.\<close>

definition predict_try :: "libs \<Rightarrow> dataframe \<Rightarrow> string py" where
  "predict_try L model_input =
     bind (getitem model_input ''image'') (\<lambda>col.
     bind (iloc0 col) (\<lambda>image_bytes.
     bind (py_len image_bytes) (\<lambda>n.
     bind (print (''Image bytes length: '' @ str_nat n)) (\<lambda>_.
     bind (open_cell L image_bytes) (\<lambda>im.
     bind (print (''Initial Image format: '' @ str_opt (format im))) (\<lambda>_.
     bind (to_jpeg L im) (\<lambda>im'.
     bind (print (''Converted Image format: '' @ str_opt (format im'))) (\<lambda>_.
     bind (ocr L im') (\<lambda>text.
     ret (json_dumps [(''text'', text)]))))))))))"

text \<open>\<^verbatim>\<open>OCRModel.predict\<close>: the \<^verbatim>\<open>try\<close> block, and the handler
  \<^verbatim>\<open>except Exception as e: return json.dumps({'error': str(e)})\<close>. The result is what
  the method returns; \<open>Inl\<close> would be an exception leaving the method.\<close>

definition predict :: "libs \<Rightarrow> dataframe \<Rightarrow> string py" where
  "predict L model_input = (\<lambda>w.
     case predict_try L model_input w of
       (Inr r, w') \<Rightarrow> (Inr r, w')
     | (Inl e, w') \<Rightarrow> (Inr (json_dumps [(''error'', str_exn e)]), w'))"

text \<open>\<^verbatim>\<open>OCRModel.load_context\<close>: two \<^verbatim>\<open>apt-get\<close> runs, then the assignment to the
  module global. Nothing catches an exception here.\<close>

definition load_context :: "libs \<Rightarrow> unit py" where
  "load_context L =
     bind (extern (Call_subprocess_run [''apt-get'', ''update''])
                  (subprocess_run L [''apt-get'', ''update''])) (\<lambda>_.
     bind (extern (Call_subprocess_run [''apt-get'', ''install'', ''-y'', ''tesseract-ocr''])
                  (subprocess_run L [''apt-get'', ''install'', ''-y'', ''tesseract-ocr''])) (\<lambda>_.
     (\<lambda>w. (Inr (), w\<lparr>tesseract_cmd := ''/usr/bin/tesseract''\<rparr>))))"

subsection \<open>The serving step, lines 193 to 217\<close>

record served_entity =
  name :: string
  entity_name :: string
  entity_version :: string
  workload_size :: string
  scale_to_zero_enabled :: bool

record route =
  served_model_name :: string
  traffic_percentage :: int

record endpoint_config =
  served_entities :: "served_entity list"
  routes :: "route list"

datatype deploy_call = Create_endpoint string endpoint_config

text \<open>The calls made on the deployment client, for the values \<^verbatim>\<open>catalog\<close>, \<^verbatim>\<open>schema\<close>
  and \<^verbatim>\<open>model_name\<close> that the notebook imports from its configuration module.\<close>

definition serving_step :: "string \<Rightarrow> string \<Rightarrow> string \<Rightarrow> deploy_call list" where
  "serving_step catalog schema model_name =
     [Create_endpoint model_name
        \<lparr>served_entities =
           [\<lparr>name = model_name,
             entity_name = catalog @ ''.'' @ schema @ ''.'' @ model_name,
             entity_version = ''1'',
             workload_size = ''Small'',
             scale_to_zero_enabled = True\<rparr>],
         routes =
           [\<lparr>served_model_name = model_name,
             traffic_percentage = 100\<rparr>]\<rparr>]"

subsection \<open>A small stand-in for the libraries\<close>

text \<open>The theorems below hold for every value of \<open>libs\<close>. To evaluate the model at
  concrete inputs, \<open>sample_libs\<close> is one such value: it reads a buffer that starts with
  \<^verbatim>\<open>FF D8\<close> as a JPEG image and one that starts with \<^verbatim>\<open>89 50\<close> as a PNG image, and
  refuses every other buffer; its OCR needs the binary at \<^verbatim>\<open>/usr/bin/tesseract\<close>.\<close>

definition sample_libs :: libs where
  "sample_libs =
     \<lparr>Image_open = (\<lambda>b.
        if take 2 b = [0xFF, 0xD8] then Inr \<lparr>format = Some ''JPEG'', mode = ''RGB'', raster = drop 2 b\<rparr>
        else if take 2 b = [0x89, 0x50] then Inr \<lparr>format = Some ''PNG'', mode = ''RGBA'', raster = drop 2 b\<rparr>
        else Inl (LibraryError ''UnidentifiedImageError'' ''cannot identify image file'')),
      image_convert = (\<lambda>im m. Inr (im\<lparr>format := None, mode := m\<rparr>)),
      image_save = (\<lambda>im f.
        if f = ''JPEG'' then Inr ([0xFF, 0xD8] @ raster im)
        else Inl (LibraryError ''KeyError'' (repr_str f))),
      image_to_string = (\<lambda>cmd im.
        if cmd = ''/usr/bin/tesseract'' then Inr (if raster im = [1] then ''Hi'' else [])
        else Inl (LibraryError ''TesseractNotFoundError'' (cmd @ '' is not installed''))),
      subprocess_run = (\<lambda>argv. Inr ())\<rparr>"

definition sample_world :: world where
  "sample_world = \<lparr>stdout = [], tesseract_cmd = ''/usr/bin/tesseract'', self_dict = [], calls = []\<rparr>"

text \<open>A world in which \<^verbatim>\<open>tesseract_cmd\<close> still has the default of pytesseract, the bare
  command name, which \<open>sample_libs\<close> does not find.\<close>

definition unconfigured_world :: world where
  "unconfigured_world = \<lparr>stdout = [], tesseract_cmd = ''tesseract'', self_dict = [], calls = []\<rparr>"

text \<open>Three variants of \<open>sample_libs\<close>, in each of which one step of the re-encoding
  fails: the conversion, the saving, and the opening of the saved bytes.\<close>

definition convert_fails_libs :: libs where
  "convert_fails_libs =
     sample_libs\<lparr>image_convert := (\<lambda>im m. Inl (LibraryError ''OSError'' ''image file is truncated''))\<rparr>"

definition save_fails_libs :: libs where
  "save_fails_libs =
     sample_libs\<lparr>image_save := (\<lambda>im f. Inl (LibraryError ''OSError'' ''encoder error''))\<rparr>"

definition reopen_fails_libs :: libs where
  "reopen_fails_libs = sample_libs\<lparr>image_save := (\<lambda>im f. Inr [0])\<rparr>"

subsection \<open>Vocabulary for the properties\<close>

text \<open>The calls that run the OCR binary.\<close>

fun is_ocr_call :: "call \<Rightarrow> bool" where
  "is_ocr_call (Call_image_to_string cmd im) = True"
| "is_ocr_call c = False"

subsection \<open>Values raised outside the class Exception\<close>













section \<open>Properties\<close>

subsection \<open>The paths through predict\<close>

text \<open>
  \<open>str_nat\<close> is unfolded on numerals only.
\<close>

declare str_nat.simps [simp del]

lemmas py_defs = bind_def ret_def raise_def extern_def print_def
  getitem_def iloc0_def py_len_def open_cell_def to_jpeg_def ocr_def

text \<open>
  One lemma for each way through \<^verbatim>\<open>predict\<close>: what it returns, what it prints and which
  library calls it makes.
\<close>

lemma predict_no_column:
  "df ''image'' = None \<Longrightarrow>
   predict L df w = (Inr (json_dumps [(''error'', repr_str ''image'')]), w)"
  by (simp add: predict_def predict_try_def py_defs)

lemma predict_no_rows:
  "df ''image'' = Some [] \<Longrightarrow>
   predict L df w = (Inr (json_dumps [(''error'', ''single positional indexer is out-of-bounds'')]), w)"
  by (simp add: predict_def predict_try_def py_defs)

lemma predict_none_cell:
  "df ''image'' = Some (NoneCell # rest) \<Longrightarrow>
   predict L df w =
     (Inr (json_dumps [(''error'', ''object of type '' @ repr_str ''NoneType'' @ '' has no len()'')]), w)"
  by (simp add: predict_def predict_try_def py_defs)

lemma predict_str_cell:
  "df ''image'' = Some (Str s # rest) \<Longrightarrow>
   predict L df w =
     (Inr (json_dumps [(''error'', ''a bytes-like object is required, not '' @ repr_str ''str'')]),
      w\<lparr>stdout := stdout w @ [''Image bytes length: '' @ str_nat (length s)]\<rparr>)"
  by (simp add: predict_def predict_try_def py_defs)

lemma predict_open_fails:
  "df ''image'' = Some (Bytes b # rest) \<Longrightarrow> Image_open L b = Inl e \<Longrightarrow>
   predict L df w =
     (Inr (json_dumps [(''error'', str_exn e)]),
      w\<lparr>stdout := stdout w @ [''Image bytes length: '' @ str_nat (length b)],
        calls := calls w @ [Call_Image_open b]\<rparr>)"
  by (simp add: predict_def predict_try_def py_defs)

lemma predict_jpeg:
  "df ''image'' = Some (Bytes b # rest) \<Longrightarrow> Image_open L b = Inr im \<Longrightarrow>
   format im = Some ''JPEG'' \<Longrightarrow>
   predict L df w =
     (Inr (case image_to_string L (tesseract_cmd w) im of
             Inr text \<Rightarrow> json_dumps [(''text'', text)]
           | Inl e \<Rightarrow> json_dumps [(''error'', str_exn e)]),
      w\<lparr>stdout := stdout w @ [''Image bytes length: '' @ str_nat (length b),
                              ''Initial Image format: JPEG'', ''Converted Image format: JPEG''],
        calls := calls w @ [Call_Image_open b, Call_image_to_string (tesseract_cmd w) im]\<rparr>)"
  by (simp add: predict_def predict_try_def py_defs split: sum.splits)

lemma predict_convert_fails:
  "df ''image'' = Some (Bytes b # rest) \<Longrightarrow> Image_open L b = Inr im \<Longrightarrow>
   format im \<noteq> Some ''JPEG'' \<Longrightarrow> image_convert L im ''RGB'' = Inl e \<Longrightarrow>
   predict L df w =
     (Inr (json_dumps [(''error'', str_exn e)]),
      w\<lparr>stdout := stdout w @ [''Image bytes length: '' @ str_nat (length b),
                              ''Initial Image format: '' @ str_opt (format im)],
        calls := calls w @ [Call_Image_open b, Call_convert im ''RGB'']\<rparr>)"
  by (simp add: predict_def predict_try_def py_defs split: sum.splits)

lemma predict_save_fails:
  "df ''image'' = Some (Bytes b # rest) \<Longrightarrow> Image_open L b = Inr im \<Longrightarrow>
   format im \<noteq> Some ''JPEG'' \<Longrightarrow> image_convert L im ''RGB'' = Inr rgb \<Longrightarrow>
   image_save L rgb ''JPEG'' = Inl e \<Longrightarrow>
   predict L df w =
     (Inr (json_dumps [(''error'', str_exn e)]),
      w\<lparr>stdout := stdout w @ [''Image bytes length: '' @ str_nat (length b),
                              ''Initial Image format: '' @ str_opt (format im)],
        calls := calls w @ [Call_Image_open b, Call_convert im ''RGB'', Call_save rgb ''JPEG'']\<rparr>)"
  by (simp add: predict_def predict_try_def py_defs split: sum.splits)

lemma predict_reopen_fails:
  "df ''image'' = Some (Bytes b # rest) \<Longrightarrow> Image_open L b = Inr im \<Longrightarrow>
   format im \<noteq> Some ''JPEG'' \<Longrightarrow> image_convert L im ''RGB'' = Inr rgb \<Longrightarrow>
   image_save L rgb ''JPEG'' = Inr jb \<Longrightarrow> Image_open L jb = Inl e \<Longrightarrow>
   predict L df w =
     (Inr (json_dumps [(''error'', str_exn e)]),
      w\<lparr>stdout := stdout w @ [''Image bytes length: '' @ str_nat (length b),
                              ''Initial Image format: '' @ str_opt (format im)],
        calls := calls w @ [Call_Image_open b, Call_convert im ''RGB'', Call_save rgb ''JPEG'',
                            Call_Image_open jb]\<rparr>)"
  by (simp add: predict_def predict_try_def py_defs split: sum.splits)

lemma predict_reencoded:
  "df ''image'' = Some (Bytes b # rest) \<Longrightarrow> Image_open L b = Inr im \<Longrightarrow>
   format im \<noteq> Some ''JPEG'' \<Longrightarrow> image_convert L im ''RGB'' = Inr rgb \<Longrightarrow>
   image_save L rgb ''JPEG'' = Inr jb \<Longrightarrow> Image_open L jb = Inr im' \<Longrightarrow>
   predict L df w =
     (Inr (case image_to_string L (tesseract_cmd w) im' of
             Inr text \<Rightarrow> json_dumps [(''text'', text)]
           | Inl e \<Rightarrow> json_dumps [(''error'', str_exn e)]),
      w\<lparr>stdout := stdout w @ [''Image bytes length: '' @ str_nat (length b),
                              ''Initial Image format: '' @ str_opt (format im),
                              ''Converted Image format: '' @ str_opt (format im')],
        calls := calls w @ [Call_Image_open b, Call_convert im ''RGB'', Call_save rgb ''JPEG'',
                            Call_Image_open jb, Call_image_to_string (tesseract_cmd w) im']\<rparr>)"
  by (simp add: predict_def predict_try_def py_defs split: sum.splits)

text \<open>
  The two responses differ in their third character, whatever the values are. The
  second lemma shows the text that \<open>json_dumps\<close> produces, escapes included.
\<close>

lemma json_dumps_text_neq_error:
  "json_dumps [(''text'', v)] \<noteq> json_dumps [(''error'', v')]"
  "json_dumps [(''error'', v')] \<noteq> json_dumps [(''text'', v)]"
  by (simp_all add: json_dumps_def json_item_def json_string_def json_escape_char_def)

lemma json_dumps_sample:
  "json_dumps [(''text'', ''Hi'')] =
     ''{'' @ [CHR 0x22] @ ''text'' @ [CHR 0x22] @ '': '' @ [CHR 0x22] @ ''Hi'' @ [CHR 0x22] @ ''}''"
  "json_dumps [(''error'', [CHR 0x27, CHR 0x0A, CHR 0xE9])] =
     ''{'' @ [CHR 0x22] @ ''error'' @ [CHR 0x22] @ '': '' @ [CHR 0x22]
       @ [CHR 0x27, CHR 0x5C, CHR ''n'', CHR 0x5C] @ ''u00e9'' @ [CHR 0x22] @ ''}''"
  by (simp_all add: json_dumps_def json_item_def json_string_def json_escape_char_def hex4_def
        digit_char_def)

text \<open>
  The world enters the result of predict through \<^verbatim>\<open>tesseract_cmd\<close> only.
\<close>

lemma predict_fst_cmd:
  "tesseract_cmd w1 = tesseract_cmd w2 \<Longrightarrow> fst (predict L df w1) = fst (predict L df w2)"
  by (simp add: predict_def predict_try_def py_defs split: option.splits list.splits cell.splits sum.splits)

text \<open>
  Every run of predict ends in one of three ways: before any library is called, with
  an error after some library calls, or with the text of the one OCR call.
\<close>

lemma predict_cases:
  obtains
    (early) e out where
      "predict L df w = (Inr (json_dumps [(''error'', str_exn e)]), w\<lparr>stdout := stdout w @ out\<rparr>)"
  | (lib_error) e out cs where
      "predict L df w =
         (Inr (json_dumps [(''error'', str_exn e)]),
          w\<lparr>stdout := stdout w @ out, calls := calls w @ cs\<rparr>)"
      "length (filter is_ocr_call cs) \<le> 1" "length cs \<le> 5"
  | (ocr_text) s out cs where
      "predict L df w =
         (Inr (json_dumps [(''text'', s)]),
          w\<lparr>stdout := stdout w @ out, calls := calls w @ cs\<rparr>)"
      "length (filter is_ocr_call cs) = 1" "length cs \<le> 5"
proof (cases "df ''image''")
  case None
  from predict_no_column [of df, OF None] have
    "predict L df w = (Inr (json_dumps [(''error'', str_exn (KeyError ''image''))]), w\<lparr>stdout := stdout w @ []\<rparr>)"
    by simp
  then show ?thesis by (rule early)
next
  case (Some col)
  show ?thesis
  proof (cases col)
    case Nil
    with Some have c: "df ''image'' = Some []" by simp
    from predict_no_rows [of df, OF c] have
      "predict L df w =
         (Inr (json_dumps [(''error'', str_exn (IndexError ''single positional indexer is out-of-bounds''))]),
          w\<lparr>stdout := stdout w @ []\<rparr>)"
      by simp
    then show ?thesis by (rule early)
  next
    case (Cons c rest)
    show ?thesis
    proof (cases c)
      case NoneCell
      with Some Cons have c: "df ''image'' = Some (NoneCell # rest)" by simp
      from predict_none_cell [of df, OF c] have
        "predict L df w =
           (Inr (json_dumps [(''error'', str_exn (TypeError (''object of type '' @ repr_str ''NoneType'' @ '' has no len()'')))]),
            w\<lparr>stdout := stdout w @ []\<rparr>)"
        by simp
      then show ?thesis by (rule early)
    next
      case (Str s)
      with Some Cons have c: "df ''image'' = Some (Str s # rest)" by simp
      from predict_str_cell [of df, OF c] have
        "predict L df w =
           (Inr (json_dumps [(''error'', str_exn (TypeError (''a bytes-like object is required, not '' @ repr_str ''str'')))]),
            w\<lparr>stdout := stdout w @ [''Image bytes length: '' @ str_nat (length s)]\<rparr>)"
        by simp
      then show ?thesis by (rule early)
    next
      case (Bytes b)
      with Some Cons have c: "df ''image'' = Some (Bytes b # rest)" by simp
      show ?thesis
      proof (cases "Image_open L b")
        case (Inl e)
        show ?thesis
          by (rule lib_error [OF predict_open_fails [of df, OF c Inl]]) simp_all
      next
        case (Inr im)
        show ?thesis
        proof (cases "format im = Some ''JPEG''")
          case True
          show ?thesis
          proof (cases "image_to_string L (tesseract_cmd w) im")
            case ocr_fails: (Inl e)
            show ?thesis
              by (rule lib_error [of e], simp add: predict_jpeg [of df, OF c Inr True] ocr_fails) simp_all
          next
            case ocr_ok: (Inr s)
            show ?thesis
              by (rule ocr_text [of s], simp add: predict_jpeg [of df, OF c Inr True] ocr_ok) simp_all
          qed
        next
          case False
          show ?thesis
          proof (cases "image_convert L im ''RGB''")
            case conv_fails: (Inl e)
            show ?thesis
              by (rule lib_error [OF predict_convert_fails [of df, OF c Inr False conv_fails]]) simp_all
          next
            case conv_ok: (Inr rgb)
            show ?thesis
            proof (cases "image_save L rgb ''JPEG''")
              case save_fails: (Inl e)
              show ?thesis
                by (rule lib_error [OF predict_save_fails [of df, OF c Inr False conv_ok save_fails]])
                  simp_all
            next
              case save_ok: (Inr jb)
              show ?thesis
              proof (cases "Image_open L jb")
                case reopen_fails: (Inl e)
                show ?thesis
                  by (rule lib_error
                        [OF predict_reopen_fails [of df, OF c Inr False conv_ok save_ok reopen_fails]])
                    simp_all
              next
                case reopen_ok: (Inr im')
                note eq = predict_reencoded [of df, OF c Inr False conv_ok save_ok reopen_ok]
                show ?thesis
                proof (cases "image_to_string L (tesseract_cmd w) im'")
                  case ocr_fails: (Inl e)
                  show ?thesis
                    by (rule lib_error [of e], simp add: eq ocr_fails) simp_all
                next
                  case ocr_ok: (Inr s)
                  show ?thesis
                    by (rule ocr_text [of s], simp add: eq ocr_ok) simp_all
                qed
              qed
            qed
          qed
        qed
      qed
    qed
  qed
qed





subsection \<open>Failures are caught\<close>

text \<open>
  Claim C1. Whenever any step of the \<^verbatim>\<open>try\<close> block raises an exception \<open>e\<close>, predict
  returns the JSON text of \<^verbatim>\<open>{"error": str(e)}\<close> as its value. In particular this is
  so for a cell that is not bytes-like, for bytes that Pillow cannot open, and for a
  failure of the OCR call, on the JPEG path and on the re-encoded path alike. In no
  case does predict raise: its result is always of the form \<open>Inr r\<close>.
\<close>

theorem predict_catches_failures:
  "(\<forall>e. fst (predict_try L df w) = Inl e \<longrightarrow>
        predict L df w = (Inr (json_dumps [(''error'', str_exn e)]), snd (predict_try L df w)))
   \<and> (\<forall>s rest. df ''image'' = Some (Str s # rest) \<longrightarrow>
        fst (predict L df w) =
          Inr (json_dumps [(''error'', ''a bytes-like object is required, not '' @ repr_str ''str'')]))
   \<and> (\<forall>b rest e. df ''image'' = Some (Bytes b # rest) \<and> Image_open L b = Inl e \<longrightarrow>
        fst (predict L df w) = Inr (json_dumps [(''error'', str_exn e)]))
   \<and> (\<forall>b rest im e. df ''image'' = Some (Bytes b # rest) \<and> Image_open L b = Inr im
          \<and> format im = Some ''JPEG'' \<and> image_to_string L (tesseract_cmd w) im = Inl e \<longrightarrow>
        fst (predict L df w) = Inr (json_dumps [(''error'', str_exn e)]))
   \<and> (\<forall>b rest im rgb jb im' e. df ''image'' = Some (Bytes b # rest) \<and> Image_open L b = Inr im
          \<and> format im \<noteq> Some ''JPEG'' \<and> image_convert L im ''RGB'' = Inr rgb
          \<and> image_save L rgb ''JPEG'' = Inr jb \<and> Image_open L jb = Inr im'
          \<and> image_to_string L (tesseract_cmd w) im' = Inl e \<longrightarrow>
        fst (predict L df w) = Inr (json_dumps [(''error'', str_exn e)]))
   \<and> (\<exists>r. fst (predict L df w) = Inr r)"
proof (intro conjI allI impI)
  fix e assume "fst (predict_try L df w) = Inl e"
  then show "predict L df w = (Inr (json_dumps [(''error'', str_exn e)]), snd (predict_try L df w))"
    by (cases "predict_try L df w") (simp add: predict_def)
next
  fix s rest assume "df ''image'' = Some (Str s # rest)"
  then show "fst (predict L df w) =
      Inr (json_dumps [(''error'', ''a bytes-like object is required, not '' @ repr_str ''str'')])"
    by (simp add: predict_str_cell [of df])
next
  fix b rest e assume "df ''image'' = Some (Bytes b # rest) \<and> Image_open L b = Inl e"
  then show "fst (predict L df w) = Inr (json_dumps [(''error'', str_exn e)])"
    by (simp add: predict_open_fails [of df])
next
  fix b rest im e
  assume "df ''image'' = Some (Bytes b # rest) \<and> Image_open L b = Inr im
          \<and> format im = Some ''JPEG'' \<and> image_to_string L (tesseract_cmd w) im = Inl e"
  then show "fst (predict L df w) = Inr (json_dumps [(''error'', str_exn e)])"
    by (simp add: predict_jpeg [of df b rest L im])
next
  fix b rest im rgb jb im' e
  assume "df ''image'' = Some (Bytes b # rest) \<and> Image_open L b = Inr im
          \<and> format im \<noteq> Some ''JPEG'' \<and> image_convert L im ''RGB'' = Inr rgb
          \<and> image_save L rgb ''JPEG'' = Inr jb \<and> Image_open L jb = Inr im'
          \<and> image_to_string L (tesseract_cmd w) im' = Inl e"
  then show "fst (predict L df w) = Inr (json_dumps [(''error'', str_exn e)])"
    by (simp add: predict_reencoded [of df b rest L im rgb jb im'])
next
  show "\<exists>r. fst (predict L df w) = Inr r"
    by (cases rule: predict_cases [of L df w]) simp_all
qed

theorem predict_catches_failures_witness:
  "fst (predict_try sample_libs Map.empty sample_world) = Inl (KeyError ''image'')
   \<and> predict sample_libs Map.empty sample_world =
       (Inr (json_dumps [(''error'', repr_str ''image'')]), sample_world)
   \<and> [''image'' \<mapsto> [Str ''aGk='']] ''image'' = Some (Str ''aGk='' # [])
   \<and> fst (predict sample_libs [''image'' \<mapsto> [Str ''aGk='']] sample_world) =
       Inr (json_dumps [(''error'', ''a bytes-like object is required, not '' @ repr_str ''str'')])
   \<and> [''image'' \<mapsto> [Bytes [0, 1, 2]]] ''image'' = Some (Bytes [0, 1, 2] # [])
   \<and> Image_open sample_libs [0, 1, 2] =
       Inl (LibraryError ''UnidentifiedImageError'' ''cannot identify image file'')
   \<and> fst (predict sample_libs [''image'' \<mapsto> [Bytes [0, 1, 2]]] sample_world) =
       Inr (json_dumps [(''error'', ''cannot identify image file'')])
   \<and> [''image'' \<mapsto> [Bytes [0xFF, 0xD8, 1]]] ''image'' = Some (Bytes [0xFF, 0xD8, 1] # [])
   \<and> Image_open sample_libs [0xFF, 0xD8, 1] =
       Inr \<lparr>format = Some ''JPEG'', mode = ''RGB'', raster = [1]\<rparr>
   \<and> image_to_string sample_libs (tesseract_cmd unconfigured_world)
         \<lparr>format = Some ''JPEG'', mode = ''RGB'', raster = [1]\<rparr> =
       Inl (LibraryError ''TesseractNotFoundError'' ''tesseract is not installed'')
   \<and> fst (predict sample_libs [''image'' \<mapsto> [Bytes [0xFF, 0xD8, 1]]] unconfigured_world) =
       Inr (json_dumps [(''error'', ''tesseract is not installed'')])
   \<and> [''image'' \<mapsto> [Bytes [0x89, 0x50, 1]]] ''image'' = Some (Bytes [0x89, 0x50, 1] # [])
   \<and> Image_open sample_libs [0x89, 0x50, 1] =
       Inr \<lparr>format = Some ''PNG'', mode = ''RGBA'', raster = [1]\<rparr>
   \<and> fst (predict sample_libs [''image'' \<mapsto> [Bytes [0x89, 0x50, 1]]] unconfigured_world) =
       Inr (json_dumps [(''error'', ''tesseract is not installed'')])"
proof -
  let ?png = "\<lparr>format = Some ''PNG'', mode = ''RGBA'', raster = [1]\<rparr>"
  let ?rgb = "\<lparr>format = None, mode = ''RGB'', raster = [1]\<rparr>"
  let ?jpg = "\<lparr>format = Some ''JPEG'', mode = ''RGB'', raster = [1]\<rparr>"
  let ?nf = "LibraryError ''TesseractNotFoundError'' ''tesseract is not installed''"
  have t: "predict_try sample_libs Map.empty sample_world = (Inl (KeyError ''image''), sample_world)"
    by (simp add: predict_try_def getitem_def bind_def raise_def)
  then have a1: "fst (predict_try sample_libs Map.empty sample_world) = Inl (KeyError ''image'')"
    by simp
  have c1: "predict sample_libs Map.empty sample_world =
      (Inr (json_dumps [(''error'', repr_str ''image'')]), sample_world)"
    using predict_catches_failures [of sample_libs Map.empty sample_world, THEN conjunct1,
        rule_format, OF a1] t
    by simp
  have a2: "[''image'' \<mapsto> [Str ''aGk='']] ''image'' = Some (Str ''aGk='' # [])" by simp
  note c2 = predict_catches_failures
      [where df = "[''image'' \<mapsto> [Str ''aGk='']]" and L = sample_libs and w = sample_world,
       THEN conjunct2, THEN conjunct1, rule_format, OF a2]
  have a3: "[''image'' \<mapsto> [Bytes [0, 1, 2]]] ''image'' = Some (Bytes [0, 1, 2] # [])
      \<and> Image_open sample_libs [0, 1, 2] =
        Inl (LibraryError ''UnidentifiedImageError'' ''cannot identify image file'')"
    by (simp add: sample_libs_def)
  note c3 = predict_catches_failures
      [where df = "[''image'' \<mapsto> [Bytes [0, 1, 2]]]" and L = sample_libs and w = sample_world,
       THEN conjunct2, THEN conjunct2, THEN conjunct1, rule_format, OF a3, unfolded str_exn.simps]
  have a4: "[''image'' \<mapsto> [Bytes [0xFF, 0xD8, 1]]] ''image'' = Some (Bytes [0xFF, 0xD8, 1] # [])
      \<and> Image_open sample_libs [0xFF, 0xD8, 1] = Inr ?jpg
      \<and> format ?jpg = Some ''JPEG''
      \<and> image_to_string sample_libs (tesseract_cmd unconfigured_world) ?jpg = Inl ?nf"
    by (simp add: sample_libs_def unconfigured_world_def)
  note c4 = predict_catches_failures
      [where df = "[''image'' \<mapsto> [Bytes [0xFF, 0xD8, 1]]]" and L = sample_libs
         and w = unconfigured_world,
       THEN conjunct2, THEN conjunct2, THEN conjunct2, THEN conjunct1, rule_format, OF a4,
       unfolded str_exn.simps]
  have a5: "[''image'' \<mapsto> [Bytes [0x89, 0x50, 1]]] ''image'' = Some (Bytes [0x89, 0x50, 1] # [])
      \<and> Image_open sample_libs [0x89, 0x50, 1] = Inr ?png
      \<and> format ?png \<noteq> Some ''JPEG''
      \<and> image_convert sample_libs ?png ''RGB'' = Inr ?rgb
      \<and> image_save sample_libs ?rgb ''JPEG'' = Inr [0xFF, 0xD8, 1]
      \<and> Image_open sample_libs [0xFF, 0xD8, 1] = Inr ?jpg
      \<and> image_to_string sample_libs (tesseract_cmd unconfigured_world) ?jpg = Inl ?nf"
    by (simp add: sample_libs_def unconfigured_world_def)
  note c5 = predict_catches_failures
      [where df = "[''image'' \<mapsto> [Bytes [0x89, 0x50, 1]]]" and L = sample_libs
         and w = unconfigured_world,
       THEN conjunct2, THEN conjunct2, THEN conjunct2, THEN conjunct2, THEN conjunct1,
       rule_format, OF a5, unfolded str_exn.simps]
  show ?thesis
    using a1 c1 a2 c2 a3 c3 a4 c4 a5 c5 by blast
qed

subsection \<open>Exactly one of the two keys\<close>

text \<open>
  Claim C2. For every input, what predict returns is the JSON text of an object with
  one key, \<^verbatim>\<open>text\<close> or \<^verbatim>\<open>error\<close>, and exactly one of the two alternatives holds. Which
  one, and with which value, is fixed by the input: the value of \<^verbatim>\<open>error\<close> is the message
  of the exception of the first step that fails (the missing column, the empty
  column, a cell that has no length or is not bytes-like, \<^verbatim>\<open>Image.open\<close>, the
  conversion, the saving, the re-opening, the OCR call), and when no step fails the
  value of \<^verbatim>\<open>text\<close> is the string that the OCR call returned. The cases listed cover
  every table.
\<close>

theorem predict_text_xor_error:
  "((\<exists>v. fst (predict L df w) = Inr (json_dumps [(''text'', v)])) \<noteq>
    (\<exists>v. fst (predict L df w) = Inr (json_dumps [(''error'', v)])))
   \<and> (df ''image'' = None \<longrightarrow>
        fst (predict L df w) = Inr (json_dumps [(''error'', str_exn (KeyError ''image''))]))
   \<and> (df ''image'' = Some [] \<longrightarrow>
        fst (predict L df w) =
          Inr (json_dumps [(''error'',
                 str_exn (IndexError ''single positional indexer is out-of-bounds''))]))
   \<and> (\<forall>rest. df ''image'' = Some (NoneCell # rest) \<longrightarrow>
        fst (predict L df w) =
          Inr (json_dumps [(''error'',
                 str_exn (TypeError (''object of type '' @ repr_str ''NoneType'' @ '' has no len()'')))]))
   \<and> (\<forall>s rest. df ''image'' = Some (Str s # rest) \<longrightarrow>
        fst (predict L df w) =
          Inr (json_dumps [(''error'',
                 str_exn (TypeError (''a bytes-like object is required, not '' @ repr_str ''str'')))]))
   \<and> (\<forall>b rest e. df ''image'' = Some (Bytes b # rest) \<and> Image_open L b = Inl e \<longrightarrow>
        fst (predict L df w) = Inr (json_dumps [(''error'', str_exn e)]))
   \<and> (\<forall>b rest im. df ''image'' = Some (Bytes b # rest) \<and> Image_open L b = Inr im
          \<and> format im = Some ''JPEG'' \<longrightarrow>
        fst (predict L df w) =
          Inr (case image_to_string L (tesseract_cmd w) im of
                 Inr text \<Rightarrow> json_dumps [(''text'', text)]
               | Inl e \<Rightarrow> json_dumps [(''error'', str_exn e)]))
   \<and> (\<forall>b rest im e. df ''image'' = Some (Bytes b # rest) \<and> Image_open L b = Inr im
          \<and> format im \<noteq> Some ''JPEG'' \<and> image_convert L im ''RGB'' = Inl e \<longrightarrow>
        fst (predict L df w) = Inr (json_dumps [(''error'', str_exn e)]))
   \<and> (\<forall>b rest im rgb e. df ''image'' = Some (Bytes b # rest) \<and> Image_open L b = Inr im
          \<and> format im \<noteq> Some ''JPEG'' \<and> image_convert L im ''RGB'' = Inr rgb
          \<and> image_save L rgb ''JPEG'' = Inl e \<longrightarrow>
        fst (predict L df w) = Inr (json_dumps [(''error'', str_exn e)]))
   \<and> (\<forall>b rest im rgb jb e. df ''image'' = Some (Bytes b # rest) \<and> Image_open L b = Inr im
          \<and> format im \<noteq> Some ''JPEG'' \<and> image_convert L im ''RGB'' = Inr rgb
          \<and> image_save L rgb ''JPEG'' = Inr jb \<and> Image_open L jb = Inl e \<longrightarrow>
        fst (predict L df w) = Inr (json_dumps [(''error'', str_exn e)]))
   \<and> (\<forall>b rest im rgb jb im'. df ''image'' = Some (Bytes b # rest) \<and> Image_open L b = Inr im
          \<and> format im \<noteq> Some ''JPEG'' \<and> image_convert L im ''RGB'' = Inr rgb
          \<and> image_save L rgb ''JPEG'' = Inr jb \<and> Image_open L jb = Inr im' \<longrightarrow>
        fst (predict L df w) =
          Inr (case image_to_string L (tesseract_cmd w) im' of
                 Inr text \<Rightarrow> json_dumps [(''text'', text)]
               | Inl e \<Rightarrow> json_dumps [(''error'', str_exn e)]))"
proof (intro conjI allI impI)
  show "(\<exists>v. fst (predict L df w) = Inr (json_dumps [(''text'', v)])) \<noteq>
        (\<exists>v. fst (predict L df w) = Inr (json_dumps [(''error'', v)]))"
  proof (cases rule: predict_cases [of L df w])
    case (early e out)
    then show ?thesis by (auto simp: json_dumps_text_neq_error)
  next
    case (lib_error e out cs)
    then show ?thesis by (auto simp: json_dumps_text_neq_error)
  next
    case (ocr_text s out cs)
    then show ?thesis by (auto simp: json_dumps_text_neq_error)
  qed
next
  assume "df ''image'' = None"
  then show "fst (predict L df w) = Inr (json_dumps [(''error'', str_exn (KeyError ''image''))])"
    by (simp add: predict_no_column [of df])
next
  assume "df ''image'' = Some []"
  then show "fst (predict L df w) =
      Inr (json_dumps [(''error'',
             str_exn (IndexError ''single positional indexer is out-of-bounds''))])"
    by (simp add: predict_no_rows [of df])
next
  fix rest assume "df ''image'' = Some (NoneCell # rest)"
  then show "fst (predict L df w) =
      Inr (json_dumps [(''error'',
             str_exn (TypeError (''object of type '' @ repr_str ''NoneType'' @ '' has no len()'')))])"
    by (simp add: predict_none_cell [of df])
next
  fix s rest assume "df ''image'' = Some (Str s # rest)"
  then show "fst (predict L df w) =
      Inr (json_dumps [(''error'',
             str_exn (TypeError (''a bytes-like object is required, not '' @ repr_str ''str'')))])"
    by (simp add: predict_str_cell [of df])
next
  fix b rest e assume "df ''image'' = Some (Bytes b # rest) \<and> Image_open L b = Inl e"
  then show "fst (predict L df w) = Inr (json_dumps [(''error'', str_exn e)])"
    by (simp add: predict_open_fails [of df])
next
  fix b rest im
  assume "df ''image'' = Some (Bytes b # rest) \<and> Image_open L b = Inr im
          \<and> format im = Some ''JPEG''"
  then show "fst (predict L df w) =
      Inr (case image_to_string L (tesseract_cmd w) im of
             Inr text \<Rightarrow> json_dumps [(''text'', text)]
           | Inl e \<Rightarrow> json_dumps [(''error'', str_exn e)])"
    by (simp add: predict_jpeg [of df b rest L im])
next
  fix b rest im e
  assume "df ''image'' = Some (Bytes b # rest) \<and> Image_open L b = Inr im
          \<and> format im \<noteq> Some ''JPEG'' \<and> image_convert L im ''RGB'' = Inl e"
  then show "fst (predict L df w) = Inr (json_dumps [(''error'', str_exn e)])"
    by (simp add: predict_convert_fails [of df b rest L im e])
next
  fix b rest im rgb e
  assume "df ''image'' = Some (Bytes b # rest) \<and> Image_open L b = Inr im
          \<and> format im \<noteq> Some ''JPEG'' \<and> image_convert L im ''RGB'' = Inr rgb
          \<and> image_save L rgb ''JPEG'' = Inl e"
  then show "fst (predict L df w) = Inr (json_dumps [(''error'', str_exn e)])"
    by (simp add: predict_save_fails [of df b rest L im rgb e])
next
  fix b rest im rgb jb e
  assume "df ''image'' = Some (Bytes b # rest) \<and> Image_open L b = Inr im
          \<and> format im \<noteq> Some ''JPEG'' \<and> image_convert L im ''RGB'' = Inr rgb
          \<and> image_save L rgb ''JPEG'' = Inr jb \<and> Image_open L jb = Inl e"
  then show "fst (predict L df w) = Inr (json_dumps [(''error'', str_exn e)])"
    by (simp add: predict_reopen_fails [of df b rest L im rgb jb e])
next
  fix b rest im rgb jb im'
  assume "df ''image'' = Some (Bytes b # rest) \<and> Image_open L b = Inr im
          \<and> format im \<noteq> Some ''JPEG'' \<and> image_convert L im ''RGB'' = Inr rgb
          \<and> image_save L rgb ''JPEG'' = Inr jb \<and> Image_open L jb = Inr im'"
  then show "fst (predict L df w) =
      Inr (case image_to_string L (tesseract_cmd w) im' of
             Inr text \<Rightarrow> json_dumps [(''text'', text)]
           | Inl e \<Rightarrow> json_dumps [(''error'', str_exn e)])"
    by (simp add: predict_reencoded [of df b rest L im rgb jb im'])
qed

theorem predict_text_xor_error_witness:
  "(Map.empty :: dataframe) ''image'' = None
   \<and> fst (predict sample_libs Map.empty sample_world) =
       Inr (json_dumps [(''error'', repr_str ''image'')])
   \<and> [''image'' \<mapsto> []] ''image'' = Some []
   \<and> fst (predict sample_libs [''image'' \<mapsto> []] sample_world) =
       Inr (json_dumps [(''error'', ''single positional indexer is out-of-bounds'')])
   \<and> [''image'' \<mapsto> [NoneCell]] ''image'' = Some (NoneCell # [])
   \<and> fst (predict sample_libs [''image'' \<mapsto> [NoneCell]] sample_world) =
       Inr (json_dumps [(''error'', ''object of type '' @ repr_str ''NoneType'' @ '' has no len()'')])
   \<and> [''image'' \<mapsto> [Str ''aGk='']] ''image'' = Some (Str ''aGk='' # [])
   \<and> fst (predict sample_libs [''image'' \<mapsto> [Str ''aGk='']] sample_world) =
       Inr (json_dumps [(''error'', ''a bytes-like object is required, not '' @ repr_str ''str'')])
   \<and> [''image'' \<mapsto> [Bytes [0, 1, 2]]] ''image'' = Some (Bytes [0, 1, 2] # [])
   \<and> Image_open sample_libs [0, 1, 2] =
       Inl (LibraryError ''UnidentifiedImageError'' ''cannot identify image file'')
   \<and> fst (predict sample_libs [''image'' \<mapsto> [Bytes [0, 1, 2]]] sample_world) =
       Inr (json_dumps [(''error'', ''cannot identify image file'')])
   \<and> [''image'' \<mapsto> [Bytes [0xFF, 0xD8, 1]]] ''image'' = Some (Bytes [0xFF, 0xD8, 1] # [])
   \<and> Image_open sample_libs [0xFF, 0xD8, 1] =
       Inr \<lparr>format = Some ''JPEG'', mode = ''RGB'', raster = [1]\<rparr>
   \<and> format \<lparr>format = Some ''JPEG'', mode = ''RGB'', raster = [1]\<rparr> = Some ''JPEG''
   \<and> image_to_string sample_libs (tesseract_cmd sample_world)
         \<lparr>format = Some ''JPEG'', mode = ''RGB'', raster = [1]\<rparr> = Inr ''Hi''
   \<and> fst (predict sample_libs [''image'' \<mapsto> [Bytes [0xFF, 0xD8, 1]]] sample_world) =
       Inr (json_dumps [(''text'', ''Hi'')])
   \<and> image_to_string sample_libs (tesseract_cmd unconfigured_world)
         \<lparr>format = Some ''JPEG'', mode = ''RGB'', raster = [1]\<rparr> =
       Inl (LibraryError ''TesseractNotFoundError'' ''tesseract is not installed'')
   \<and> fst (predict sample_libs [''image'' \<mapsto> [Bytes [0xFF, 0xD8, 1]]] unconfigured_world) =
       Inr (json_dumps [(''error'', ''tesseract is not installed'')])
   \<and> [''image'' \<mapsto> [Bytes [0x89, 0x50, 1]]] ''image'' = Some (Bytes [0x89, 0x50, 1] # [])
   \<and> Image_open convert_fails_libs [0x89, 0x50, 1] =
       Inr \<lparr>format = Some ''PNG'', mode = ''RGBA'', raster = [1]\<rparr>
   \<and> format \<lparr>format = Some ''PNG'', mode = ''RGBA'', raster = [1]\<rparr> \<noteq> Some ''JPEG''
   \<and> image_convert convert_fails_libs \<lparr>format = Some ''PNG'', mode = ''RGBA'', raster = [1]\<rparr> ''RGB'' =
       Inl (LibraryError ''OSError'' ''image file is truncated'')
   \<and> fst (predict convert_fails_libs [''image'' \<mapsto> [Bytes [0x89, 0x50, 1]]] sample_world) =
       Inr (json_dumps [(''error'', ''image file is truncated'')])
   \<and> image_save save_fails_libs \<lparr>format = None, mode = ''RGB'', raster = [1]\<rparr> ''JPEG'' =
       Inl (LibraryError ''OSError'' ''encoder error'')
   \<and> fst (predict save_fails_libs [''image'' \<mapsto> [Bytes [0x89, 0x50, 1]]] sample_world) =
       Inr (json_dumps [(''error'', ''encoder error'')])
   \<and> image_save reopen_fails_libs \<lparr>format = None, mode = ''RGB'', raster = [1]\<rparr> ''JPEG'' = Inr [0]
   \<and> Image_open reopen_fails_libs [0] =
       Inl (LibraryError ''UnidentifiedImageError'' ''cannot identify image file'')
   \<and> fst (predict reopen_fails_libs [''image'' \<mapsto> [Bytes [0x89, 0x50, 1]]] sample_world) =
       Inr (json_dumps [(''error'', ''cannot identify image file'')])
   \<and> image_save sample_libs \<lparr>format = None, mode = ''RGB'', raster = [1]\<rparr> ''JPEG'' =
       Inr [0xFF, 0xD8, 1]
   \<and> fst (predict sample_libs [''image'' \<mapsto> [Bytes [0x89, 0x50, 1]]] sample_world) =
       Inr (json_dumps [(''text'', ''Hi'')])"
proof -
  let ?png = "\<lparr>format = Some ''PNG'', mode = ''RGBA'', raster = [1]\<rparr>"
  let ?rgb = "\<lparr>format = None, mode = ''RGB'', raster = [1]\<rparr>"
  let ?jpg = "\<lparr>format = Some ''JPEG'', mode = ''RGB'', raster = [1]\<rparr>"
  let ?unid = "LibraryError ''UnidentifiedImageError'' ''cannot identify image file''"
  let ?dfpng = "[''image'' \<mapsto> [Bytes [0x89, 0x50, 1]]] :: dataframe"
  let ?dfjpg = "[''image'' \<mapsto> [Bytes [0xFF, 0xD8, 1]]] :: dataframe"
  note lib_defs = sample_libs_def convert_fails_libs_def save_fails_libs_def reopen_fails_libs_def
  have a2: "(Map.empty :: dataframe) ''image'' = None" by simp
  note c2 = predict_text_xor_error
      [where df = Map.empty and L = sample_libs and w = sample_world,
       THEN conjunct2, THEN conjunct1, rule_format, OF a2, unfolded str_exn.simps]
  have a3: "[''image'' \<mapsto> []] ''image'' = Some []" by simp
  note c3 = predict_text_xor_error
      [where df = "[''image'' \<mapsto> []]" and L = sample_libs and w = sample_world,
       THEN conjunct2, THEN conjunct2, THEN conjunct1, rule_format, OF a3, unfolded str_exn.simps]
  have a4: "[''image'' \<mapsto> [NoneCell]] ''image'' = Some (NoneCell # [])" by simp
  note c4 = predict_text_xor_error
      [where df = "[''image'' \<mapsto> [NoneCell]]" and L = sample_libs and w = sample_world,
       THEN conjunct2, THEN conjunct2, THEN conjunct2, THEN conjunct1, rule_format, OF a4,
       unfolded str_exn.simps]
  have a5: "[''image'' \<mapsto> [Str ''aGk='']] ''image'' = Some (Str ''aGk='' # [])" by simp
  note c5 = predict_text_xor_error
      [where df = "[''image'' \<mapsto> [Str ''aGk='']]" and L = sample_libs and w = sample_world,
       THEN conjunct2, THEN conjunct2, THEN conjunct2, THEN conjunct2, THEN conjunct1,
       rule_format, OF a5, unfolded str_exn.simps]
  have a6: "[''image'' \<mapsto> [Bytes [0, 1, 2]]] ''image'' = Some (Bytes [0, 1, 2] # [])
      \<and> Image_open sample_libs [0, 1, 2] = Inl ?unid"
    by (simp add: sample_libs_def)
  note c6 = predict_text_xor_error
      [where df = "[''image'' \<mapsto> [Bytes [0, 1, 2]]]" and L = sample_libs and w = sample_world,
       THEN conjunct2, THEN conjunct2, THEN conjunct2, THEN conjunct2, THEN conjunct2,
       THEN conjunct1, rule_format, OF a6, unfolded str_exn.simps]
  have a7: "?dfjpg ''image'' = Some (Bytes [0xFF, 0xD8, 1] # [])
      \<and> Image_open sample_libs [0xFF, 0xD8, 1] = Inr ?jpg \<and> format ?jpg = Some ''JPEG''"
    by (simp add: sample_libs_def)
  have v7: "image_to_string sample_libs (tesseract_cmd sample_world) ?jpg = Inr ''Hi''"
    and v7': "image_to_string sample_libs (tesseract_cmd unconfigured_world) ?jpg =
      Inl (LibraryError ''TesseractNotFoundError'' ''tesseract is not installed'')"
    by (simp_all add: sample_libs_def sample_world_def unconfigured_world_def)
  have c7: "fst (predict sample_libs ?dfjpg sample_world) = Inr (json_dumps [(''text'', ''Hi'')])"
    using predict_text_xor_error
      [where df = ?dfjpg and L = sample_libs and w = sample_world,
       THEN conjunct2, THEN conjunct2, THEN conjunct2, THEN conjunct2, THEN conjunct2,
       THEN conjunct2, THEN conjunct1, rule_format, OF a7] v7
    by simp
  have c7': "fst (predict sample_libs ?dfjpg unconfigured_world) =
      Inr (json_dumps [(''error'', ''tesseract is not installed'')])"
    using predict_text_xor_error
      [where df = ?dfjpg and L = sample_libs and w = unconfigured_world,
       THEN conjunct2, THEN conjunct2, THEN conjunct2, THEN conjunct2, THEN conjunct2,
       THEN conjunct2, THEN conjunct1, rule_format, OF a7] v7'
    by simp
  have p: "?dfpng ''image'' = Some (Bytes [0x89, 0x50, 1] # [])" by simp
  have a8: "?dfpng ''image'' = Some (Bytes [0x89, 0x50, 1] # [])
      \<and> Image_open convert_fails_libs [0x89, 0x50, 1] = Inr ?png
      \<and> format ?png \<noteq> Some ''JPEG''
      \<and> image_convert convert_fails_libs ?png ''RGB'' =
          Inl (LibraryError ''OSError'' ''image file is truncated'')"
    by (simp add: lib_defs)
  note c8 = predict_text_xor_error
      [where df = ?dfpng and L = convert_fails_libs and w = sample_world,
       THEN conjunct2, THEN conjunct2, THEN conjunct2, THEN conjunct2, THEN conjunct2,
       THEN conjunct2, THEN conjunct2, THEN conjunct1, rule_format, OF a8, unfolded str_exn.simps]
  have a9: "?dfpng ''image'' = Some (Bytes [0x89, 0x50, 1] # [])
      \<and> Image_open save_fails_libs [0x89, 0x50, 1] = Inr ?png
      \<and> format ?png \<noteq> Some ''JPEG''
      \<and> image_convert save_fails_libs ?png ''RGB'' = Inr ?rgb
      \<and> image_save save_fails_libs ?rgb ''JPEG'' = Inl (LibraryError ''OSError'' ''encoder error'')"
    by (simp add: lib_defs)
  note c9 = predict_text_xor_error
      [where df = ?dfpng and L = save_fails_libs and w = sample_world,
       THEN conjunct2, THEN conjunct2, THEN conjunct2, THEN conjunct2, THEN conjunct2,
       THEN conjunct2, THEN conjunct2, THEN conjunct2, THEN conjunct1, rule_format, OF a9,
       unfolded str_exn.simps]
  have a10: "?dfpng ''image'' = Some (Bytes [0x89, 0x50, 1] # [])
      \<and> Image_open reopen_fails_libs [0x89, 0x50, 1] = Inr ?png
      \<and> format ?png \<noteq> Some ''JPEG''
      \<and> image_convert reopen_fails_libs ?png ''RGB'' = Inr ?rgb
      \<and> image_save reopen_fails_libs ?rgb ''JPEG'' = Inr [0]
      \<and> Image_open reopen_fails_libs [0] = Inl ?unid"
    by (simp add: lib_defs)
  note c10 = predict_text_xor_error
      [where df = ?dfpng and L = reopen_fails_libs and w = sample_world,
       THEN conjunct2, THEN conjunct2, THEN conjunct2, THEN conjunct2, THEN conjunct2,
       THEN conjunct2, THEN conjunct2, THEN conjunct2, THEN conjunct2, THEN conjunct1,
       rule_format, OF a10, unfolded str_exn.simps]
  have a11: "?dfpng ''image'' = Some (Bytes [0x89, 0x50, 1] # [])
      \<and> Image_open sample_libs [0x89, 0x50, 1] = Inr ?png
      \<and> format ?png \<noteq> Some ''JPEG''
      \<and> image_convert sample_libs ?png ''RGB'' = Inr ?rgb
      \<and> image_save sample_libs ?rgb ''JPEG'' = Inr [0xFF, 0xD8, 1]
      \<and> Image_open sample_libs [0xFF, 0xD8, 1] = Inr ?jpg"
    by (simp add: lib_defs)
  have c11: "fst (predict sample_libs ?dfpng sample_world) = Inr (json_dumps [(''text'', ''Hi'')])"
    using predict_text_xor_error
      [where df = ?dfpng and L = sample_libs and w = sample_world,
       THEN conjunct2, THEN conjunct2, THEN conjunct2, THEN conjunct2, THEN conjunct2,
       THEN conjunct2, THEN conjunct2, THEN conjunct2, THEN conjunct2, THEN conjunct2,
       rule_format, OF a11] v7
    by simp
  show ?thesis
    using a2 c2 a3 c3 a4 c4 a5 c5 a6 c6 a7 v7 c7 v7' c7' a8 c8 a9 c9 a10 c10 a11 c11
    by (intro conjI) (simp_all only: simp_thms)
qed

subsection \<open>Bytes that are not an image\<close>

text \<open>
  Claim C3. For a table with one row whose cell holds bytes that Pillow cannot open as
  an image, predict returns the JSON text of \<^verbatim>\<open>{"error": message}\<close>, and the returned
  text is not the JSON text of any object \<^verbatim>\<open>{"text": v}\<close>.
\<close>

theorem predict_undecodable_bytes:
  assumes "df ''image'' = Some [Bytes b]" and "Image_open L b = Inl e"
  shows "fst (predict L df w) = Inr (json_dumps [(''error'', str_exn e)])
     \<and> (\<forall>v. fst (predict L df w) \<noteq> Inr (json_dumps [(''text'', v)]))"
  using predict_open_fails [of df b "[]" L e w] assms
  by (simp add: json_dumps_text_neq_error)

theorem predict_undecodable_bytes_witness:
  "[''image'' \<mapsto> [Bytes [0, 1, 2]]] ''image'' = Some [Bytes [0, 1, 2]]
   \<and> Image_open sample_libs [0, 1, 2] =
       Inl (LibraryError ''UnidentifiedImageError'' ''cannot identify image file'')
   \<and> fst (predict sample_libs [''image'' \<mapsto> [Bytes [0, 1, 2]]] sample_world) =
       Inr (json_dumps [(''error'', ''cannot identify image file'')])
   \<and> (\<forall>v. fst (predict sample_libs [''image'' \<mapsto> [Bytes [0, 1, 2]]] sample_world) \<noteq>
          Inr (json_dumps [(''text'', v)]))"
proof -
  have h1: "[''image'' \<mapsto> [Bytes [0, 1, 2]]] ''image'' = Some [Bytes [0, 1, 2]]" by simp
  have h2: "Image_open sample_libs [0, 1, 2] =
      Inl (LibraryError ''UnidentifiedImageError'' ''cannot identify image file'')"
    by (simp add: sample_libs_def)
  note res =
    predict_undecodable_bytes
      [where df = "[''image'' \<mapsto> [Bytes [0, 1, 2]]]" and w = sample_world, OF h1 h2,
       unfolded str_exn.simps]
  show ?thesis
    using h1 h2 res by blast
qed

subsection \<open>The steps of predict, in order\<close>

text \<open>
  Claim C4. For a table with one row whose bytes Pillow opens, predict makes these
  library calls, in this order and no others: it opens the bytes; if the format of the
  image is not JPEG it converts the image to RGB, saves it as JPEG and opens the saved
  bytes; it runs OCR on the resulting image, which for a JPEG input is the image as
  first opened. It returns the text of the OCR call. If a step fails, the calls stop
  with that step and predict returns the error text of that step.
\<close>

theorem predict_steps_in_order:
  assumes "df ''image'' = Some [Bytes b]" and "Image_open L b = Inr im"
  shows
    "(format im = Some ''JPEG'' \<longrightarrow>
        calls (snd (predict L df w)) =
          calls w @ [Call_Image_open b, Call_image_to_string (tesseract_cmd w) im]
        \<and> fst (predict L df w) =
            Inr (case image_to_string L (tesseract_cmd w) im of
                   Inr text \<Rightarrow> json_dumps [(''text'', text)]
                 | Inl e \<Rightarrow> json_dumps [(''error'', str_exn e)]))
   \<and> (format im \<noteq> Some ''JPEG'' \<longrightarrow>
        (\<forall>e. image_convert L im ''RGB'' = Inl e \<longrightarrow>
           calls (snd (predict L df w)) = calls w @ [Call_Image_open b, Call_convert im ''RGB'']
           \<and> fst (predict L df w) = Inr (json_dumps [(''error'', str_exn e)]))
      \<and> (\<forall>rgb e. image_convert L im ''RGB'' = Inr rgb \<and> image_save L rgb ''JPEG'' = Inl e \<longrightarrow>
           calls (snd (predict L df w)) =
             calls w @ [Call_Image_open b, Call_convert im ''RGB'', Call_save rgb ''JPEG'']
           \<and> fst (predict L df w) = Inr (json_dumps [(''error'', str_exn e)]))
      \<and> (\<forall>rgb jb e. image_convert L im ''RGB'' = Inr rgb \<and> image_save L rgb ''JPEG'' = Inr jb
             \<and> Image_open L jb = Inl e \<longrightarrow>
           calls (snd (predict L df w)) =
             calls w @ [Call_Image_open b, Call_convert im ''RGB'', Call_save rgb ''JPEG'',
                        Call_Image_open jb]
           \<and> fst (predict L df w) = Inr (json_dumps [(''error'', str_exn e)]))
      \<and> (\<forall>rgb jb im'. image_convert L im ''RGB'' = Inr rgb \<and> image_save L rgb ''JPEG'' = Inr jb
             \<and> Image_open L jb = Inr im' \<longrightarrow>
           calls (snd (predict L df w)) =
             calls w @ [Call_Image_open b, Call_convert im ''RGB'', Call_save rgb ''JPEG'',
                        Call_Image_open jb, Call_image_to_string (tesseract_cmd w) im']
           \<and> fst (predict L df w) =
               Inr (case image_to_string L (tesseract_cmd w) im' of
                      Inr text \<Rightarrow> json_dumps [(''text'', text)]
                    | Inl e \<Rightarrow> json_dumps [(''error'', str_exn e)])))"
proof (intro conjI impI allI)
  assume "format im = Some ''JPEG''"
  note eq = predict_jpeg [of df b "[]" L im w, OF assms this]
  show "calls (snd (predict L df w)) =
      calls w @ [Call_Image_open b, Call_image_to_string (tesseract_cmd w) im]"
    by (simp add: eq)
  show "fst (predict L df w) =
      Inr (case image_to_string L (tesseract_cmd w) im of
             Inr text \<Rightarrow> json_dumps [(''text'', text)]
           | Inl e \<Rightarrow> json_dumps [(''error'', str_exn e)])"
    by (simp add: eq)
next
  fix e assume "format im \<noteq> Some ''JPEG''" and "image_convert L im ''RGB'' = Inl e"
  note eq = predict_convert_fails [of df b "[]" L im e w, OF assms this]
  show "calls (snd (predict L df w)) = calls w @ [Call_Image_open b, Call_convert im ''RGB'']"
    by (simp add: eq)
  show "fst (predict L df w) = Inr (json_dumps [(''error'', str_exn e)])"
    by (simp add: eq)
next
  fix rgb e
  assume f: "format im \<noteq> Some ''JPEG''"
    and h: "image_convert L im ''RGB'' = Inr rgb \<and> image_save L rgb ''JPEG'' = Inl e"
  note eq = predict_save_fails [of df b "[]" L im rgb e w, OF assms f conjunct1 [OF h] conjunct2 [OF h]]
  show "calls (snd (predict L df w)) =
      calls w @ [Call_Image_open b, Call_convert im ''RGB'', Call_save rgb ''JPEG'']"
    by (simp add: eq)
  show "fst (predict L df w) = Inr (json_dumps [(''error'', str_exn e)])"
    by (simp add: eq)
next
  fix rgb jb e
  assume f: "format im \<noteq> Some ''JPEG''"
    and h: "image_convert L im ''RGB'' = Inr rgb \<and> image_save L rgb ''JPEG'' = Inr jb
             \<and> Image_open L jb = Inl e"
  from h have h1: "image_convert L im ''RGB'' = Inr rgb" and h2: "image_save L rgb ''JPEG'' = Inr jb"
    and h3: "Image_open L jb = Inl e" by simp_all
  note eq = predict_reopen_fails [of df b "[]" L im rgb jb e w, OF assms f h1 h2 h3]
  show "calls (snd (predict L df w)) =
      calls w @ [Call_Image_open b, Call_convert im ''RGB'', Call_save rgb ''JPEG'',
                 Call_Image_open jb]"
    by (simp add: eq)
  show "fst (predict L df w) = Inr (json_dumps [(''error'', str_exn e)])"
    by (simp add: eq)
next
  fix rgb jb im'
  assume f: "format im \<noteq> Some ''JPEG''"
    and h: "image_convert L im ''RGB'' = Inr rgb \<and> image_save L rgb ''JPEG'' = Inr jb
             \<and> Image_open L jb = Inr im'"
  from h have h1: "image_convert L im ''RGB'' = Inr rgb" and h2: "image_save L rgb ''JPEG'' = Inr jb"
    and h3: "Image_open L jb = Inr im'" by simp_all
  note eq = predict_reencoded [of df b "[]" L im rgb jb im' w, OF assms f h1 h2 h3]
  show "calls (snd (predict L df w)) =
      calls w @ [Call_Image_open b, Call_convert im ''RGB'', Call_save rgb ''JPEG'',
                 Call_Image_open jb, Call_image_to_string (tesseract_cmd w) im']"
    by (simp add: eq)
  show "fst (predict L df w) =
      Inr (case image_to_string L (tesseract_cmd w) im' of
             Inr text \<Rightarrow> json_dumps [(''text'', text)]
           | Inl e \<Rightarrow> json_dumps [(''error'', str_exn e)])"
    by (simp add: eq)
qed

theorem predict_steps_in_order_witness:
  "[''image'' \<mapsto> [Bytes [0x89, 0x50, 1]]] ''image'' = Some [Bytes [0x89, 0x50, 1]]
   \<and> Image_open sample_libs [0x89, 0x50, 1] = Inr \<lparr>format = Some ''PNG'', mode = ''RGBA'', raster = [1]\<rparr>
   \<and> format \<lparr>format = Some ''PNG'', mode = ''RGBA'', raster = [1]\<rparr> \<noteq> Some ''JPEG''
   \<and> image_convert sample_libs \<lparr>format = Some ''PNG'', mode = ''RGBA'', raster = [1]\<rparr> ''RGB'' =
       Inr \<lparr>format = None, mode = ''RGB'', raster = [1]\<rparr>
   \<and> image_save sample_libs \<lparr>format = None, mode = ''RGB'', raster = [1]\<rparr> ''JPEG'' = Inr [0xFF, 0xD8, 1]
   \<and> Image_open sample_libs [0xFF, 0xD8, 1] = Inr \<lparr>format = Some ''JPEG'', mode = ''RGB'', raster = [1]\<rparr>
   \<and> calls (snd (predict sample_libs [''image'' \<mapsto> [Bytes [0x89, 0x50, 1]]] sample_world)) =
       [Call_Image_open [0x89, 0x50, 1],
        Call_convert \<lparr>format = Some ''PNG'', mode = ''RGBA'', raster = [1]\<rparr> ''RGB'',
        Call_save \<lparr>format = None, mode = ''RGB'', raster = [1]\<rparr> ''JPEG'',
        Call_Image_open [0xFF, 0xD8, 1],
        Call_image_to_string ''/usr/bin/tesseract'' \<lparr>format = Some ''JPEG'', mode = ''RGB'', raster = [1]\<rparr>]
   \<and> fst (predict sample_libs [''image'' \<mapsto> [Bytes [0x89, 0x50, 1]]] sample_world) =
       Inr (json_dumps [(''text'', ''Hi'')])"
proof -
  let ?png = "\<lparr>format = Some ''PNG'', mode = ''RGBA'', raster = [1]\<rparr>"
  let ?rgb = "\<lparr>format = None, mode = ''RGB'', raster = [1]\<rparr>"
  let ?jpg = "\<lparr>format = Some ''JPEG'', mode = ''RGB'', raster = [1]\<rparr>"
  have h1: "[''image'' \<mapsto> [Bytes [0x89, 0x50, 1]]] ''image'' = Some [Bytes [0x89, 0x50, 1]]"
    by simp
  have h2: "Image_open sample_libs [0x89, 0x50, 1] = Inr ?png"
    by (simp add: sample_libs_def)
  have h3: "format ?png \<noteq> Some ''JPEG''" by simp
  have h4: "image_convert sample_libs ?png ''RGB'' = Inr ?rgb
      \<and> image_save sample_libs ?rgb ''JPEG'' = Inr [0xFF, 0xD8, 1]
      \<and> Image_open sample_libs [0xFF, 0xD8, 1] = Inr ?jpg"
    by (simp add: sample_libs_def)
  note steps =
    predict_steps_in_order
      [where df = "[''image'' \<mapsto> [Bytes [0x89, 0x50, 1]]]" and w = sample_world, OF h1 h2,
       THEN conjunct2, rule_format, OF h3]
  note last = steps [THEN conjunct2, THEN conjunct2, THEN conjunct2, rule_format, OF h4]
  show ?thesis
    using h1 h2 h3 h4 last by (simp add: sample_libs_def sample_world_def)
qed

subsection \<open>The serving step\<close>

text \<open>
  Claim C7. The serving step makes one call, \<^verbatim>\<open>create_endpoint\<close>, with the name
  \<^verbatim>\<open>model_name\<close>. The configuration has one served entity, the registered model
  \<^verbatim>\<open>catalog.schema.model_name\<close> at version \<^verbatim>\<open>"1"\<close>, and one route, which sends 100
  percent of the traffic to that entity.
\<close>

theorem serving_step_one_endpoint:
  "\<exists>cfg e r. serving_step catalog schema model_name = [Create_endpoint model_name cfg]
     \<and> served_entities cfg = [e] \<and> routes cfg = [r]
     \<and> traffic_percentage r = 100 \<and> served_model_name r = name e
     \<and> name e = model_name
     \<and> entity_name e = catalog @ ''.'' @ schema @ ''.'' @ model_name
     \<and> entity_version e = ''1''"
  by (simp add: serving_step_def)

subsection \<open>A single pass that keeps the model state\<close>

text \<open>
  Claim C8. For every input, predict only appends to standard output and to the log of
  library calls: the module global \<^verbatim>\<open>tesseract_cmd\<close> and the attributes of \<^verbatim>\<open>self\<close>
  are as before. It makes at most five library calls, at most one of them an OCR call
  (no retry). It keeps nothing from one call to the next: after any earlier call of
  predict, on any table \<open>df'\<close>, it returns what it would have returned without that
  call.
\<close>

theorem predict_single_pass:
  "\<exists>out cs. snd (predict L df w) = w\<lparr>stdout := stdout w @ out, calls := calls w @ cs\<rparr>
     \<and> length (filter is_ocr_call cs) \<le> 1 \<and> length cs \<le> 5
     \<and> tesseract_cmd (snd (predict L df w)) = tesseract_cmd w
     \<and> self_dict (snd (predict L df w)) = self_dict w
     \<and> fst (predict L df (snd (predict L df' w'))) = fst (predict L df w')"
proof -
  have again: "fst (predict L df (snd (predict L df' w'))) = fst (predict L df w')"
  proof (rule predict_fst_cmd)
    show "tesseract_cmd (snd (predict L df' w')) = tesseract_cmd w'"
      by (cases rule: predict_cases [of L df' w']) simp_all
  qed
  show ?thesis
  proof (cases rule: predict_cases [of L df w])
    case (early e out)
    have "snd (predict L df w) = w\<lparr>stdout := stdout w @ out, calls := calls w @ []\<rparr>"
      by (simp add: early)
    then show ?thesis using again by (intro exI [of _ out] exI [of _ "[]"]) simp
  next
    case (lib_error e out cs)
    then show ?thesis using again by (intro exI [of _ out] exI [of _ cs]) simp
  next
    case (ocr_text s out cs)
    then show ?thesis using again by (intro exI [of _ out] exI [of _ cs]) simp
  qed
qed

subsection \<open>Only the first row is read\<close>

text \<open>
  Claim C9. Two tables whose column \<^verbatim>\<open>image\<close> starts with the same cell give the same
  result and the same effects, whatever the other rows and the other columns hold.
\<close>

theorem predict_first_row_only:
  assumes "df1 ''image'' = Some (c # rest1)" and "df2 ''image'' = Some (c # rest2)"
  shows "predict L df1 w = predict L df2 w"
  using assms by (simp add: predict_def predict_try_def getitem_def iloc0_def bind_def ret_def)

theorem predict_first_row_only_witness:
  "[''image'' \<mapsto> [Bytes [0xFF, 0xD8, 1], Bytes [7]]] ''image'' = Some (Bytes [0xFF, 0xD8, 1] # [Bytes [7]])
   \<and> [''image'' \<mapsto> [Bytes [0xFF, 0xD8, 1]], ''id'' \<mapsto> [Str ''a'']] ''image'' = Some (Bytes [0xFF, 0xD8, 1] # [])
   \<and> predict sample_libs [''image'' \<mapsto> [Bytes [0xFF, 0xD8, 1], Bytes [7]]] sample_world =
       predict sample_libs [''image'' \<mapsto> [Bytes [0xFF, 0xD8, 1]], ''id'' \<mapsto> [Str ''a'']] sample_world"
proof -
  have h1: "[''image'' \<mapsto> [Bytes [0xFF, 0xD8, 1], Bytes [7]]] ''image'' =
      Some (Bytes [0xFF, 0xD8, 1] # [Bytes [7]])" by simp
  have h2: "[''image'' \<mapsto> [Bytes [0xFF, 0xD8, 1]], ''id'' \<mapsto> [Str ''a'']] ''image'' =
      Some (Bytes [0xFF, 0xD8, 1] # [])" by simp
  show ?thesis
    using h1 h2
      predict_first_row_only
        [where ?df1.0 = "[''image'' \<mapsto> [Bytes [0xFF, 0xD8, 1], Bytes [7]]]"
           and ?df2.0 = "[''image'' \<mapsto> [Bytes [0xFF, 0xD8, 1]], ''id'' \<mapsto> [Str ''a'']]"
           and L = sample_libs and w = sample_world, OF h1 h2]
    by simp
qed

subsection \<open>Malformed tables, and when predict raises\<close>




end
